theory Spec2Isabelle
  imports Complex_Main
begin

section \<open>Pourbaix diagram construction (pymatgen/analysis/pourbaix/maker.py)\<close>

text \<open>
  The development embeds the class \<open>PourbaixDiagram\<close> of \<open>maker.py\<close>.
  Conventions of the embedding:
  \<^item> Python and numpy floating-point numbers are real numbers here; \<open>1e-8\<close> is
    \<open>1 / 10 ^ 8\<close>. Where the source would produce \<open>inf\<close> or \<open>nan\<close> (a numpy
    division by zero) the model stops with \<open>NonFiniteFloat\<close>, and a Python float
    division by zero is the \<open>ZeroDivisionError\<close> it raises.
  \<^item> Entry objects are mutable and shared, so they live in a store: an entry is a
    reference (an address), the store maps addresses to the object's attributes, and
    every method that mutates an entry returns the updated store.
  \<^item> Every \<open>raise\<close> and every failing index or name lookup of the source is an
    \<open>Inl\<close> result of the model.
  \<^item> The collaborators imported from outside the module (\<open>numpy.linalg.solve\<close>,
    pyhull's \<open>ConvexHull\<close>, the formula parsers) are parameters, collected in the
    record \<open>env\<close>.
  \<^item> A Python 2 \<open>dict\<close> is an association list in its iteration order.
\<close>

subsection \<open>Errors\<close>

datatype error =
    StandardError string
  | IndexError
  | ValueError
  | UnboundLocalError string
  | LinAlgError string
  | ZeroDivisionError
  | ParseError string
  | NonFiniteFloat

subsection \<open>Entries and the store\<close>

text \<open>
  Modelled from the spec: the module \<open>pymatgen.core\<close> with the class \<open>Composition\<close> is
  not part of the sources. A composition maps element symbols to amounts and is
  queryable by element (an absent element has amount 0); \<open>reduced_factor\<close> is the
  second component of \<open>get_reduced_composition_and_factor()\<close>.
\<close>

record Composition =
  amounts :: "(string \<times> real) list"
  reduced_factor :: real

definition elements :: "Composition \<Rightarrow> string list" where
  "elements c = map fst (amounts c)"

definition comp_get :: "Composition \<Rightarrow> string \<Rightarrow> real" where
  "comp_get c el = (case map_of (amounts c) el of None \<Rightarrow> 0 | Some a \<Rightarrow> a)"

text \<open>
  Modelled from the spec: the module \<open>pymatgen.analysis.pourbaix.entry\<close> with the classes
  \<open>PourbaixEntry\<close> and \<open>MultiEntry\<close> is not part of the sources. The record holds the
  attribute contract of section 3 of the specification; \<open>entrylist\<close> and \<open>weights\<close> are
  the two constructor arguments a \<open>MultiEntry\<close> keeps (both empty for a plain entry).
\<close>

type_synonym ref = nat

record entry =
  phase_type :: string
  composition :: Composition
  normalization_factor :: real
  nH2O :: real
  conc_term :: real
  npH :: real
  nPhi :: real
  g0 :: real
  correction :: real
  entrylist :: "ref list"
  weights :: "real list"

type_synonym heap = "ref \<Rightarrow> entry"

text \<open>
  Modelled from the spec: \<open>entry.scale(factor)\<close> of the missing entry module scales all
  coordinate fields (\<open>npH\<close>, \<open>nPhi\<close>, \<open>g0\<close>) by the factor.
\<close>

definition scale :: "entry \<Rightarrow> real \<Rightarrow> entry" where
  "scale e factor = e\<lparr>npH := npH e * factor, nPhi := nPhi e * factor, g0 := g0 e * factor\<rparr>"

text \<open>
  Modelled from the spec: \<open>entry.correction += t\<close> on an entry of the missing entry
  module; the accumulator is combined into the derived \<open>g0\<close>, so the addition moves
  \<open>g0\<close> by the same term.
\<close>

definition add_correction :: "entry \<Rightarrow> real \<Rightarrow> entry" where
  "add_correction e t = e\<lparr>correction := correction e + t, g0 := g0 e + t\<rparr>"

text \<open>
  Modelled from the spec: \<open>MultiEntry(entry_list, weights)\<close> of the missing entry module
  is a composite over an ordered sequence of base entries and a parallel sequence of
  weights, exposing the attribute contract of an entry, each numeric attribute being the
  weighted combination of the constituents' attributes. The first argument of the model
  is the store the constituents are read from.
\<close>

definition weighted :: "(entry \<Rightarrow> real) \<Rightarrow> heap \<Rightarrow> ref list \<Rightarrow> real list \<Rightarrow> real" where
  "weighted attr h es ws = sum_list (map (\<lambda>(w, e). w * attr (h e)) (zip ws es))"

definition MultiEntry :: "heap \<Rightarrow> ref list \<Rightarrow> real list \<Rightarrow> entry" where
  "MultiEntry h es ws =
     \<lparr> phase_type = ''composite'',
       composition =
         \<lparr> amounts = concat (map (\<lambda>(w, e). map (\<lambda>(el, a). (el, w * a))
                                     (amounts (composition (h e)))) (zip ws es)),
           reduced_factor = 1 \<rparr>,
       normalization_factor = weighted normalization_factor h es ws,
       nH2O = weighted nH2O h es ws,
       conc_term = weighted conc_term h es ws,
       npH = weighted npH h es ws,
       nPhi = weighted nPhi h es ws,
       g0 = weighted g0 h es ws,
       correction = weighted correction h es ws,
       entrylist = es,
       weights = ws \<rparr>"

text \<open>
  A new object gets an address no known reference has: one more than the largest
  address among the references the program holds.
\<close>

definition fresh_ref :: "ref list \<Rightarrow> ref" where
  "fresh_ref rs = Suc (foldr max rs 0)"

subsection \<open>External collaborators\<close>

type_synonym row = "real \<times> real \<times> real"
type_synonym facet = "nat \<times> nat \<times> nat"

text \<open>
  \<open>linalg_solve\<close> is \<open>numpy.linalg.solve\<close>: \<open>Inl msg\<close> is a raised
  \<open>LinAlgError\<close> with message \<open>msg\<close>. \<open>ConvexHull pts\<close> is the attribute
  \<open>vertices\<close> of pyhull's \<open>ConvexHull(pts)\<close>: the facets of the hull, each a triple of
  indices into \<open>pts\<close>. \<open>Ion_from_formula\<close> and \<open>Composition_from_formula\<close> are the two
  formula parsers.
\<close>

record env =
  linalg_solve :: "real list list \<Rightarrow> real list \<Rightarrow> string + real list"
  ConvexHull :: "row list \<Rightarrow> facet list"
  Ion_from_formula :: "string \<Rightarrow> error + Composition"
  Composition_from_formula :: "string \<Rightarrow> error + Composition"

subsection \<open>The diagram object\<close>

record PourbaixDiagram =
  solid_entries :: "ref list"
  ion_entries :: "ref list"
  unprocessed_entries :: "ref list"
  elt_comp :: "(string \<times> real) list"
  multielement :: bool
  pourbaix_elements :: "string list"
  all_entries :: "ref list"
  qhull_entries :: "ref list"
  qhull_data :: "row list"
  facets :: "facet list"
  stable_entries :: "ref set"
  vertices :: "nat set"
  store :: heap

subsection \<open>Classification of the input entries (lines 46-56)\<close>

definition phase_type_message :: string where
  "phase_type_message =
     ''Incorrect Phase type - needs to be                 Pourbaix entry of phase type Ion/Solid''"

text \<open>
  The loop of \<open>__init__\<close> over \<open>entries\<close>; the two accumulators are
  \<open>self._solid_entries\<close> and \<open>self._ion_entries\<close>.
\<close>

fun classify :: "heap \<Rightarrow> ref list \<Rightarrow> ref list \<Rightarrow> ref list \<Rightarrow> error + (ref list \<times> ref list)" where
  "classify h [] solids ions = Inr (solids, ions)"
| "classify h (e # es) solids ions =
     (if phase_type (h e) = ''Solid'' then classify h es (solids @ [e]) ions
      else if phase_type (h e) = ''Ion'' then classify h es solids (ions @ [e])
      else Inl (StandardError phase_type_message))"

subsection \<open>The composition target (lines 57-82)\<close>

fun contains_sub :: "string \<Rightarrow> string \<Rightarrow> bool" where
  "contains_sub pat [] = (pat = [])"
| "contains_sub pat (c # cs) = (take (length pat) (c # cs) = pat \<or> contains_sub pat cs)"

text \<open>
  The first alternative of the regular expression, \<open>\[([^\[\]]+)\]\<close>: an opening
  bracket, one or more characters that are not brackets, a closing bracket.
\<close>

fun has_bracketed :: "string \<Rightarrow> bool" where
  "has_bracketed [] = False"
| "has_bracketed (c # cs) =
     ((c = CHR ''['' \<and>
       (let body = takeWhile (\<lambda>d. d \<noteq> CHR ''['' \<and> d \<noteq> CHR '']'') cs;
            rest = dropWhile (\<lambda>d. d \<noteq> CHR ''['' \<and> d \<noteq> CHR '']'') cs
        in body \<noteq> [] \<and> (case rest of [] \<Rightarrow> False | d # _ \<Rightarrow> d = CHR '']'')))
      \<or> has_bracketed cs)"

text \<open>\<open>re.search(r"\[([^\[\]]+)\]|\(aq\)", comp)\<close> finds a match.\<close>

definition ionic_notation :: "string \<Rightarrow> bool" where
  "ionic_notation formula = (has_bracketed formula \<or> contains_sub ''(aq)'' formula)"

definition parse_formula :: "env \<Rightarrow> string \<Rightarrow> error + Composition" where
  "parse_formula ev formula =
     (if ionic_notation formula then Ion_from_formula ev formula
      else Composition_from_formula ev formula)"

text \<open>The loop of lines 63-72: one list \<open>Ai\<close> of amounts per key of \<open>comp_dict\<close>.\<close>

fun build_A :: "env \<Rightarrow> string list \<Rightarrow> string list \<Rightarrow> error + real list list" where
  "build_A ev elts [] = Inr []"
| "build_A ev elts (formula # cs) =
     (case parse_formula ev formula of
        Inl e \<Rightarrow> Inl e
      | Inr comp_obj \<Rightarrow>
          (case build_A ev elts cs of
             Inl e \<Rightarrow> Inl e
           | Inr A \<Rightarrow> Inr (map (comp_get comp_obj) elts # A)))"

text \<open>
  Lines 60-77. The keys of a dictionary are distinct, so the values read key by key in
  iteration order are the second components of the association list. The scalar
  \<open>s\<close> is \<open>np.dot([A[i].sum() ...], w)\<close>; numpy divides by a zero \<open>s\<close> without
  raising and carries \<open>inf\<close>/\<open>nan\<close> on, where this model stops.
\<close>

definition solve_elt_comp :: "env \<Rightarrow> (string \<times> real) list \<Rightarrow> error + (string \<times> real) list" where
  "solve_elt_comp ev comp_dict =
     (let pourbaix_elts = map fst comp_dict;
          w = map snd comp_dict
      in case build_A ev pourbaix_elts (map fst comp_dict) of
           Inl e \<Rightarrow> Inl e
         | Inr A0 \<Rightarrow>
             (let A = transpose A0;
                  s = sum_list (map2 (*) (map sum_list A) w)
              in if s = 0 then Inl NonFiniteFloat
                 else (case linalg_solve ev (map (map (\<lambda>a. a / s)) A) w of
                         Inl msg \<Rightarrow> Inl (LinAlgError msg)
                       | Inr x \<Rightarrow> Inr (zip pourbaix_elts x))))"

subsection \<open>The multi-entry synthesizer (lines 114-167)\<close>

text \<open>\<open>itertools.combinations(xs, n)\<close>, in the order the iterator yields.\<close>

fun combinations :: "'a list \<Rightarrow> nat \<Rightarrow> 'a list list" where
  "combinations xs 0 = [[]]"
| "combinations [] (Suc n) = []"
| "combinations (x # xs) (Suc n) =
     map ((#) x) (combinations xs n) @ combinations xs (Suc n)"

text \<open>Lines 131-134 and 141-144: the reduction factor of an entry.\<close>

definition red_fac :: "entry \<Rightarrow> real" where
  "red_fac e = (if phase_type e = ''Solid'' then reduced_factor (composition e) else 1)"

text \<open>Lines 135-136 and 145-147: the accumulation of \<open>sum_nel\<close> from \<open>0.0\<close>.\<close>

definition sum_nel :: "string list \<Rightarrow> entry \<Rightarrow> real" where
  "sum_nel elt_list e =
     foldl (\<lambda>s el. s + comp_get (composition e) el / red_fac e) 0 elt_list"

text \<open>
  Lines 137-138: the right-hand side \<open>b\<close> for the combination \<open>entry_list\<close>, from its
  first entry.
\<close>

definition system_b :: "heap \<Rightarrow> ref list \<Rightarrow> (string \<times> real) list \<Rightarrow> nat list \<Rightarrow> real list" where
  "system_b h entries ec entry_list =
     (let elt_list = map fst ec;
          composition_list = map snd ec;
          entry0 = h (entries ! (entry_list ! 0))
      in map (\<lambda>i. comp_get (composition entry0) (elt_list ! i) / red_fac entry0
                    - composition_list ! i * sum_nel elt_list entry0)
             [1..<length elt_list])"

text \<open>
  Lines 127 and 139-150: the matrix \<open>A\<close>. Row \<open>i - 1\<close> belongs to element \<open>i\<close>, column
  \<open>j - 1\<close> to the \<open>j\<close>-th entry of the combination.
\<close>

definition system_A :: "heap \<Rightarrow> ref list \<Rightarrow> (string \<times> real) list \<Rightarrow> nat list \<Rightarrow> real list list" where
  "system_A h entries ec entry_list =
     (let elt_list = map fst ec;
          composition_list = map snd ec
      in map (\<lambda>i. map (\<lambda>j. let entry = h (entries ! (entry_list ! j))
                              in composition_list ! i * sum_nel elt_list entry
                                 - comp_get (composition entry) (elt_list ! i) / red_fac entry)
                         [1..<length entry_list])
             [1..<length elt_list])"

text \<open>
  The body of the loop over \<open>list_of_entries\<close> up to line 161, for one index
  combination \<open>entry_list\<close>: \<open>Inr None\<close> is a \<open>continue\<close>, \<open>Inr (Some ws)\<close> is the
  weight list handed to the \<open>MultiEntry\<close> constructor, \<open>Inl\<close> a raised exception.
  Lines 128 and 130 raise an \<open>IndexError\<close> on an index outside \<open>entries\<close> and on an
  empty combination; the divisions by \<open>red_fac\<close> run for every entry of the combination
  as soon as there is one element.
\<close>

definition solve_combination ::
  "env \<Rightarrow> heap \<Rightarrow> ref list \<Rightarrow> (string \<times> real) list \<Rightarrow> nat list \<Rightarrow> error + real list option" where
  "solve_combination ev h entries ec entry_list =
     (if entry_list = [] \<or> list_ex (\<lambda>j. length entries \<le> j) entry_list
      then Inl IndexError
      else if ec \<noteq> [] \<and> list_ex (\<lambda>j. red_fac (h (entries ! j)) = 0) entry_list
      then Inl ZeroDivisionError
      else
        (case linalg_solve ev (system_A h entries ec entry_list)
                (system_b h entries ec entry_list) of
           Inl msg \<Rightarrow>
             if contains_sub ''Singular matrix'' msg then Inr None
             else Inl (StandardError ''Unknown Error message!'')
         | Inr ws \<Rightarrow>
             if \<not> list_all (\<lambda>w. 0 < w) ws then Inr None
             else Inr (Some (1 # ws))))"

text \<open>
  The state of the loop: the store, \<open>processed_entries\<close>,
  \<open>self._entry_components_dict\<close>, and the two local variables that line 165 reads after
  the loop; \<open>None\<close> is a local variable that no assignment has bound yet.
\<close>

record synth_state =
  s_store :: heap
  processed_entries :: "ref list"
  entry_components_dict :: "ref \<rightharpoonup> nat list"
  super_entry :: "ref option"
  entry_list_var :: "nat list option"

fun synth_loop ::
  "env \<Rightarrow> ref list \<Rightarrow> (string \<times> real) list \<Rightarrow> nat list list \<Rightarrow> synth_state \<Rightarrow> error + synth_state" where
  "synth_loop ev entries ec [] st = Inr st"
| "synth_loop ev entries ec (entry_list # rest) st =
     (case solve_combination ev (s_store st) entries ec entry_list of
        Inl e \<Rightarrow> Inl e
      | Inr None \<Rightarrow> synth_loop ev entries ec rest (st\<lparr>entry_list_var := Some entry_list\<rparr>)
      | Inr (Some ws) \<Rightarrow>
          (let multi_entries = map (\<lambda>j. entries ! j) entry_list;
               r = fresh_ref (entries @ processed_entries st)
           in synth_loop ev entries ec rest
                \<lparr> s_store = (s_store st)(r := MultiEntry (s_store st) multi_entries ws),
                  processed_entries = processed_entries st @ [r],
                  entry_components_dict = (entry_components_dict st)(r \<mapsto> entry_list),
                  super_entry = Some r,
                  entry_list_var = Some entry_list \<rparr>))"

definition synth_init :: "heap \<Rightarrow> synth_state" where
  "synth_init h =
     \<lparr> s_store = h, processed_entries = [], entry_components_dict = Map.empty,
       super_entry = None, entry_list_var = None \<rparr>"

text \<open>
  Lines 165-166, after the loop. Python evaluates the right-hand side \<open>entry_list\<close>
  before the subscript \<open>super_entry\<close>.
\<close>

definition post_loop :: "synth_state \<Rightarrow> error + synth_state" where
  "post_loop st =
     (case entry_list_var st of
        None \<Rightarrow> Inl (UnboundLocalError ''entry_list'')
      | Some entry_list \<Rightarrow>
          (case super_entry st of
             None \<Rightarrow> Inl (UnboundLocalError ''super_entry'')
           | Some r \<Rightarrow>
               Inr (st\<lparr> entry_components_dict := (entry_components_dict st)(r \<mapsto> entry_list),
                        processed_entries := processed_entries st @ [r] \<rparr>)))"

definition process_multielement_entries ::
  "env \<Rightarrow> heap \<Rightarrow> ref list \<Rightarrow> (string \<times> real) list \<Rightarrow> error + synth_state" where
  "process_multielement_entries ev h entries ec =
     (let N = length ec;
          list_of_entries = combinations [0..<length entries] N
      in case synth_loop ev entries ec list_of_entries (synth_init h) of
           Inl e \<Rightarrow> Inl e
         | Inr st \<Rightarrow> post_loop st)"

text \<open>
  What the loop body decides for a combination: whether it reaches the constructor
  call of line 162, and the weights it passes there.
\<close>

definition feasible :: "env \<Rightarrow> heap \<Rightarrow> ref list \<Rightarrow> (string \<times> real) list \<Rightarrow> nat list \<Rightarrow> bool" where
  "feasible ev h entries ec entry_list =
     (case solve_combination ev h entries ec entry_list of
        Inr (Some ws) \<Rightarrow> True
      | _ \<Rightarrow> False)"

definition combo_weights ::
  "env \<Rightarrow> heap \<Rightarrow> ref list \<Rightarrow> (string \<times> real) list \<Rightarrow> nat list \<Rightarrow> real list" where
  "combo_weights ev h entries ec entry_list =
     (case solve_combination ev h entries ec entry_list of
        Inr (Some ws) \<Rightarrow> ws
      | _ \<Rightarrow> [])"

subsection \<open>Projection into hull space (lines 84-112)\<close>

definition MU_H2O :: real where
  "MU_H2O = - 24583 / 10000"

text \<open>Lines 94-95, on the attributes of one entry.\<close>

definition project_entry :: "entry \<Rightarrow> entry" where
  "project_entry e =
     (let e1 = scale e (normalization_factor e)
      in add_correction e1 (- MU_H2O * nH2O e1 + conc_term e1))"

text \<open>
  The loop of lines 93-96 over \<open>self._all_entries\<close>: each visit mutates the object the
  reference points to, so an object that occurs twice in the list is processed twice.
\<close>

fun mutate_entries :: "heap \<Rightarrow> ref list \<Rightarrow> heap" where
  "mutate_entries h [] = h"
| "mutate_entries h (r # rs) = mutate_entries (h(r := project_entry (h r))) rs"

definition entry_row :: "entry \<Rightarrow> row" where
  "entry_row e = (npH e, nPhi e, g0 e)"

definition third :: "row \<Rightarrow> real" where
  "third p = snd (snd p)"

text \<open>
  \<open>_process_conv_hull_data\<close>. The sort of line 110 is Python's stable sort on the key
  \<open>x[0][2]\<close>; unpacking the result of \<open>zip(*temp)\<close> into two names fails with a
  \<open>ValueError\<close> when \<open>temp\<close> is empty.
\<close>

definition process_conv_hull_data ::
  "heap \<Rightarrow> ref list \<Rightarrow> ref list \<Rightarrow> error + (row list \<times> ref list)" where
  "process_conv_hull_data h entries_to_process qhull_entries0 =
     (let data = map (\<lambda>r. entry_row (h r)) entries_to_process;
          temp = sort_key (\<lambda>x. third (fst x)) (zip data qhull_entries0)
      in if temp = [] then Inl ValueError
         else Inr (map fst temp, map snd temp))"

text \<open>
  \<open>_create_conv_hull_data\<close>: the result is the store after the mutations,
  \<open>self._all_entries\<close>, \<open>self._qhull_entries\<close> and the returned data.
\<close>

definition create_conv_hull_data ::
  "env \<Rightarrow> heap \<Rightarrow> bool \<Rightarrow> ref list \<Rightarrow> (string \<times> real) list
     \<Rightarrow> error + (heap \<times> ref list \<times> ref list \<times> row list)" where
  "create_conv_hull_data ev h multi unprocessed ec =
     (case (if multi
            then (case process_multielement_entries ev h unprocessed ec of
                    Inl e \<Rightarrow> Inl e
                  | Inr st \<Rightarrow> Inr (s_store st, processed_entries st))
            else Inr (h, unprocessed)) of
        Inl e \<Rightarrow> Inl e
      | Inr (h1, all_es) \<Rightarrow>
          (let h2 = mutate_entries h1 all_es;
               entries_to_process = all_es
           in case process_conv_hull_data h2 entries_to_process entries_to_process of
                Inl e \<Rightarrow> Inl e
              | Inr (data, qes) \<Rightarrow> Inr (h2, all_es, qes, data)))"

subsection \<open>The lower envelope of the hull (lines 183-234)\<close>

definition vsub :: "row \<Rightarrow> row \<Rightarrow> row" where
  "vsub p q = (fst p - fst q, fst (snd p) - fst (snd q), third p - third q)"

definition vneg :: "row \<Rightarrow> row" where
  "vneg p = (- fst p, - fst (snd p), - third p)"

definition cross :: "row \<Rightarrow> row \<Rightarrow> row" where
  "cross a b =
     (fst (snd a) * third b - third a * fst (snd b),
      third a * fst b - fst a * third b,
      fst a * fst (snd b) - fst (snd a) * fst b)"

definition dot :: "row \<Rightarrow> row \<Rightarrow> real" where
  "dot a b = fst a * fst b + fst (snd a) * fst (snd b) + third a * third b"

definition average :: "real list \<Rightarrow> real" where
  "average xs = sum_list xs / real (length xs)"

text \<open>The determinant of a 3 x 3 matrix given by its rows (\<open>np.linalg.det\<close>).\<close>

definition det3 :: "row \<times> row \<times> row \<Rightarrow> real" where
  "det3 m =
     (case m of ((a1, a2, a3), (b1, b2, b3), (c1, c2, c3)) \<Rightarrow>
        a1 * (b2 * c3 - b3 * c2) - a2 * (b1 * c3 - b3 * c1) + a3 * (b1 * c2 - b2 * c1))"

text \<open>
  Lines 190-195: row \<open>count\<close> of \<open>facetmatrix\<close> is the data row of the \<open>count\<close>-th vertex
  with its last column (\<open>dim - 1\<close>) overwritten by 1.
\<close>

definition homogeneous :: "row \<Rightarrow> row" where
  "homogeneous p = (fst p, fst (snd p), 1)"

definition facetmatrix :: "row list \<Rightarrow> facet \<Rightarrow> row \<times> row \<times> row" where
  "facetmatrix data f =
     (case f of (v0, v1, v2) \<Rightarrow>
        (homogeneous (data ! v0), homogeneous (data ! v1), homogeneous (data ! v2)))"

definition facet_list :: "facet \<Rightarrow> nat list" where
  "facet_list f = (case f of (v0, v1, v2) \<Rightarrow> [v0, v1, v2])"

text \<open>\<open>np.sort\<close> on the facet array sorts the indices of every facet ascending.\<close>

definition sort_facet :: "facet \<Rightarrow> facet" where
  "sort_facet f = (let s = sort (facet_list f) in (s ! 0, s ! 1, s ! 2))"

definition in_range :: "nat \<Rightarrow> facet \<Rightarrow> bool" where
  "in_range n f = list_all (\<lambda>v. v < n) (facet_list f)"

text \<open>Line 196: the test a facet passes to stay in \<open>vert_facets_removed\<close>.\<close>

definition not_vertical :: "row list \<Rightarrow> facet \<Rightarrow> bool" where
  "not_vertical data f = (1 / 10 ^ 8 < \<bar>det3 (facetmatrix data f)\<bar>)"

text \<open>Lines 205-208: the vertices of the facets kept so far, each once.\<close>

definition hull_vertices :: "facet list \<Rightarrow> nat list" where
  "hull_vertices fs = remdups (concat (map facet_list fs))"

text \<open>
  Lines 209-212. The average over no vertex at all is \<open>nan\<close> in numpy; the centre is
  then never used, since line 216 loops over the same empty set.
\<close>

definition hull_center :: "row list \<Rightarrow> nat list \<Rightarrow> row" where
  "hull_center data vs =
     (average (map (\<lambda>v. fst (data ! v)) vs),
      average (map (\<lambda>v. fst (snd (data ! v))) vs),
      average (map (\<lambda>v. third (data ! v)) vs))"

text \<open>Lines 215-217: the copy of the data with every hull vertex shifted by \<open>c\<close>.\<close>

definition shift_data :: "row list \<Rightarrow> nat list \<Rightarrow> row \<Rightarrow> row list" where
  "shift_data data vs c =
     map (\<lambda>i. if i \<in> set vs then vsub (data ! i) c else data ! i) [0..<length data]"

text \<open>Lines 222-227: the normal of a facet, turned away from the origin.\<close>

definition outward_normal :: "row list \<Rightarrow> facet \<Rightarrow> row" where
  "outward_normal new_qhull_data f =
     (case f of (v0, v1, v2) \<Rightarrow>
        (let a = vsub (new_qhull_data ! v1) (new_qhull_data ! v0);
             b = vsub (new_qhull_data ! v2) (new_qhull_data ! v0);
             n = cross a b;
             val = dot n (new_qhull_data ! v0)
         in if val < 0 then vneg n else n))"

text \<open>Line 228: the test a facet passes to enter \<open>final_facets\<close>.\<close>

definition lower_facet :: "row list \<Rightarrow> facet \<Rightarrow> bool" where
  "lower_facet new_qhull_data f = (third (outward_normal new_qhull_data f) \<le> 0)"

text \<open>
  The normal in the words of the specification, for comparison with the one the code
  computes: the cross product of the two edge vectors from the first vertex, with its
  sign flipped when its dot product with the first vertex, shifted by the centre \<open>c\<close>,
  is negative.
\<close>

definition spec_outward_normal :: "row list \<Rightarrow> row \<Rightarrow> facet \<Rightarrow> row" where
  "spec_outward_normal data c f =
     (case f of (v0, v1, v2) \<Rightarrow>
        (let n = cross (vsub (data ! v1) (data ! v0)) (vsub (data ! v2) (data ! v0))
         in if dot n (vsub (data ! v0) c) < 0 then vneg n else n))"

definition new_qhull_data_of :: "row list \<Rightarrow> facet list \<Rightarrow> row list" where
  "new_qhull_data_of data vert_facets_removed =
     (let vs = hull_vertices vert_facets_removed
      in shift_data data vs (hull_center data vs))"

text \<open>
  The \<open>else\<close> branch of \<open>_make_pourbaixdiagram\<close>, from the call of the hull primitive
  to \<open>final_facets\<close>. Line 193 reads the data row of every vertex of every facet, so an
  index outside the data raises there.
\<close>

definition lower_envelope :: "env \<Rightarrow> row list \<Rightarrow> error + facet list" where
  "lower_envelope ev data =
     (let fs = map sort_facet (ConvexHull ev data)
      in if \<not> list_all (in_range (length data)) fs then Inl IndexError
         else
           (let vert_facets_removed = filter (not_vertical data) fs;
                new_qhull_data = new_qhull_data_of data vert_facets_removed
            in Inr (filter (lower_facet new_qhull_data) vert_facets_removed)))"

subsection \<open>Assembly of the stable sets (lines 236-242)\<close>

text \<open>
  The two nested loops over the facets and their vertices; the accumulator is the pair
  of \<open>stable_vertices\<close> and \<open>stable_entries\<close>.
\<close>

fun add_vertices :: "ref list \<Rightarrow> nat list \<Rightarrow> nat set \<times> ref set \<Rightarrow> nat set \<times> ref set" where
  "add_vertices qes [] acc = acc"
| "add_vertices qes (vertex # vs) (sv, se) =
     add_vertices qes vs (insert vertex sv, insert (qes ! vertex) se)"

fun collect_stable :: "ref list \<Rightarrow> facet list \<Rightarrow> nat set \<times> ref set \<Rightarrow> nat set \<times> ref set" where
  "collect_stable qes [] acc = acc"
| "collect_stable qes (f # fs) acc =
     collect_stable qes fs (add_vertices qes (facet_list f) acc)"

subsection \<open>The constructor\<close>

definition too_few_message :: string where
  "too_few_message = ''Can only do elements with at-least 3 entries for now''"

text \<open>
  \<open>_make_pourbaixdiagram\<close> on the object \<open>self\<close> as \<open>__init__\<close> has filled it so far.
  Every data row has the three components of line 107, so \<open>dim\<close> is 3.
\<close>

definition make_pourbaixdiagram :: "env \<Rightarrow> PourbaixDiagram \<Rightarrow> error + PourbaixDiagram" where
  "make_pourbaixdiagram ev self =
     (case create_conv_hull_data ev (store self) (multielement self)
             (unprocessed_entries self) (elt_comp self) of
        Inl e \<Rightarrow> Inl e
      | Inr (h, all_es, qes, data) \<Rightarrow>
          (let dim = 3
           in if data = [] then Inl IndexError
              else if length data < dim then Inl (StandardError too_few_message)
              else
                (case (if length data = dim then Inr [(0, 1, 2)]
                       else lower_envelope ev data) of
                   Inl e \<Rightarrow> Inl e
                 | Inr fs \<Rightarrow>
                     (let (stable_vertices, stable_es) = collect_stable qes fs ({}, {})
                      in Inr (self\<lparr> store := h, all_entries := all_es, qhull_entries := qes,
                                     qhull_data := data, facets := fs,
                                     stable_entries := stable_es,
                                     vertices := stable_vertices \<rparr>)))))"

text \<open>
  \<open>__init__\<close>. \<open>h\<close> is the store the caller's entry objects live in, \<open>entries\<close> the
  sequence of references passed in, \<open>comp_dict\<close> the composition dictionary (empty
  by default).
\<close>

definition init :: "env \<Rightarrow> heap \<Rightarrow> ref list \<Rightarrow> (string \<times> real) list \<Rightarrow> error + PourbaixDiagram" where
  "init ev h entries comp_dict =
     (case classify h entries [] [] of
        Inl e \<Rightarrow> Inl e
      | Inr (solids, ions) \<Rightarrow>
          (let self0 = \<lparr> solid_entries = solids, ion_entries = ions,
                         unprocessed_entries = solids @ ions,
                         elt_comp = comp_dict, multielement = False, pourbaix_elements = [],
                         all_entries = [], qhull_entries = [], qhull_data = [], facets = [],
                         stable_entries = {}, vertices = {}, store = h \<rparr>
           in if comp_dict \<noteq> [] then
                (case solve_elt_comp ev comp_dict of
                   Inl e \<Rightarrow> Inl e
                 | Inr ec \<Rightarrow>
                     make_pourbaixdiagram ev
                       (self0\<lparr> multielement := True,
                               pourbaix_elements := map fst comp_dict,
                               elt_comp := ec \<rparr>))
              else
                (case entries of
                   [] \<Rightarrow> Inl IndexError
                 | e0 # _ \<Rightarrow>
                     make_pourbaixdiagram ev
                       (self0\<lparr> multielement := False,
                               pourbaix_elements :=
                                 filter (\<lambda>symbol. symbol \<notin> set [''H'', ''O''])
                                   (elements (composition (h e0))) \<rparr>))))"

subsection \<open>Reference collaborators and example inputs\<close>

text \<open>
  To run the constructor on concrete inputs the parameters of \<open>env\<close> need values. The
  solver below is exact Gaussian elimination: it answers with the message
  \<open>Singular matrix\<close> when no pivot is left, and with another message when the array
  is not a square matrix of at least two dimensions (\<open>np.array([])\<close> has one).
\<close>

primrec eliminate :: "nat \<Rightarrow> (real list \<times> real) list \<Rightarrow> real list option" where
  "eliminate 0 rows = Some []"
| "eliminate (Suc n) rows =
     (case filter (\<lambda>r. hd (fst r) \<noteq> 0) rows of
        [] \<Rightarrow> None
      | p # _ \<Rightarrow>
          (let reduced =
                 map (\<lambda>r. (let f = hd (fst r) / hd (fst p)
                            in (map2 (\<lambda>a pa. a - f * pa) (tl (fst r)) (tl (fst p)),
                                snd r - f * snd p)))
                     (remove1 p rows)
           in case eliminate n reduced of
                None \<Rightarrow> None
              | Some xs \<Rightarrow>
                  Some ((snd p - sum_list (map2 (*) (tl (fst p)) xs)) / hd (fst p) # xs)))"

definition reference_solve :: "real list list \<Rightarrow> real list \<Rightarrow> string + real list" where
  "reference_solve A b =
     (if A = [] then Inl ''1-dimensional array given. Array must be two-dimensional''
      else if list_ex (\<lambda>r. length r \<noteq> length A) A then Inl ''Array must be square''
      else if length b \<noteq> length A then Inl ''Incompatible dimensions''
      else (case eliminate (length A) (zip A b) of
              None \<Rightarrow> Inl ''Singular matrix''
            | Some x \<Rightarrow> Inr x))"

text \<open>
  The hull of points in general position: a triple of indices is a facet when all
  points lie on one side of the plane through its three points.
\<close>

definition orient :: "row list \<Rightarrow> facet \<Rightarrow> nat \<Rightarrow> real" where
  "orient pts f l =
     (case f of (i, j, k) \<Rightarrow>
        dot (cross (vsub (pts ! j) (pts ! i)) (vsub (pts ! k) (pts ! i)))
            (vsub (pts ! l) (pts ! i)))"

definition reference_hull :: "row list \<Rightarrow> facet list" where
  "reference_hull pts =
     filter (\<lambda>f. list_all (\<lambda>l. 0 \<le> orient pts f l) [0..<length pts]
                 \<or> list_all (\<lambda>l. orient pts f l \<le> 0) [0..<length pts])
            (map (\<lambda>t. (t ! 0, t ! 1, t ! 2)) (combinations [0..<length pts] 3))"

definition element_composition :: "string \<Rightarrow> Composition" where
  "element_composition symbol = \<lparr> amounts = [(symbol, 1)], reduced_factor = 1 \<rparr>"

text \<open>A parser that knows the formulas of two elements and nothing else.\<close>

definition reference_parser :: "string \<Rightarrow> error + Composition" where
  "reference_parser formula =
     (if formula = ''Fe'' \<or> formula = ''Mn'' then Inr (element_composition formula)
      else Inl (ParseError formula))"

definition reference_env :: env where
  "reference_env =
     \<lparr> linalg_solve = reference_solve, ConvexHull = reference_hull,
       Ion_from_formula = reference_parser, Composition_from_formula = reference_parser \<rparr>"

text \<open>
  An entry with the given phase type, composition and coordinates, normalisation
  factor 1 and no water or concentration term.
\<close>

definition plain_entry :: "string \<Rightarrow> Composition \<Rightarrow> real \<Rightarrow> real \<Rightarrow> real \<Rightarrow> entry" where
  "plain_entry pt c ph phi g =
     \<lparr> phase_type = pt, composition = c, normalization_factor = 1, nH2O = 0,
       conc_term = 0, npH = ph, nPhi = phi, g0 = g, correction = 0,
       entrylist = [], weights = [] \<rparr>"

definition Fe2O3 :: Composition where
  "Fe2O3 = \<lparr> amounts = [(''Fe'', 2), (''O'', 3)], reduced_factor = 1 \<rparr>"

definition FeMn :: Composition where
  "FeMn = \<lparr> amounts = [(''Fe'', 1), (''Mn'', 1)], reduced_factor = 1 \<rparr>"

text \<open>
  Four iron entries whose hull points are the corners of a tetrahedron; the entry at
  address 0 is the one of highest free energy. Address 4 holds an entry of a phase type
  the classifier rejects, address 5 a manganese solid, address 6 a solid with iron and
  manganese in equal parts, and every other address an iron oxide.
\<close>

definition example_heap :: heap where
  "example_heap r =
     (if r = 0 then plain_entry ''Solid'' (element_composition ''Fe'') 0 0 1
      else if r = 1 then plain_entry ''Solid'' (element_composition ''Fe'') 0 0 0
      else if r = 2 then plain_entry ''Ion'' (element_composition ''Fe'') 1 0 0
      else if r = 3 then plain_entry ''Ion'' (element_composition ''Fe'') 0 1 0
      else if r = 4 then plain_entry ''Gas'' (element_composition ''Fe'') 0 0 0
      else if r = 5 then plain_entry ''Solid'' (element_composition ''Mn'') 1 2 (- 3)
      else if r = 6 then plain_entry ''Solid'' FeMn 0 0 0
      else plain_entry ''Solid'' Fe2O3 0 0 0)"

definition example_elt_comp :: "(string \<times> real) list" where
  "example_elt_comp = [(''Fe'', 1 / 2), (''Mn'', 1 / 2)]"

section \<open>Properties\<close>

subsection \<open>The shape of a constructed diagram\<close>

lemma add_vertices_eq:
  "add_vertices qes vs (sv, se) = (sv \<union> set vs, se \<union> (\<lambda>v. qes ! v) ` set vs)"
  by (induction vs arbitrary: sv se) auto

lemma collect_stable_eq:
  "collect_stable qes fs (sv, se) =
     (sv \<union> (\<Union>f\<in>set fs. set (facet_list f)),
      se \<union> (\<lambda>v. qes ! v) ` (\<Union>f\<in>set fs. set (facet_list f)))"
  by (induction fs arbitrary: sv se) (auto simp: add_vertices_eq)

lemma make_result:
  assumes "make_pourbaixdiagram ev self = Inr d"
  shows "create_conv_hull_data ev (store self) (multielement self)
           (unprocessed_entries self) (elt_comp self)
         = Inr (store d, all_entries d, qhull_entries d, qhull_data d) \<and>
         3 \<le> length (qhull_data d) \<and>
         (if length (qhull_data d) = 3 then facets d = [(0, 1, 2)]
          else lower_envelope ev (qhull_data d) = Inr (facets d)) \<and>
         collect_stable (qhull_entries d) (facets d) ({}, {}) = (vertices d, stable_entries d)"
  using assms
  by (auto simp: make_pourbaixdiagram_def Let_def split: sum.splits prod.splits if_splits)

lemma init_make:
  assumes "init ev h entries comp_dict = Inr d"
  shows "\<exists>self. make_pourbaixdiagram ev self = Inr d"
  using assms
  by (auto simp: init_def Let_def split: sum.splits prod.splits if_splits list.splits)

lemma insort_key_pair:
  "insort_key (\<lambda>x. k (fst x)) (f a, a) (map (\<lambda>x. (f x, x)) ys)
     = map (\<lambda>x. (f x, x)) (insort_key (\<lambda>x. k (f x)) a ys)"
  by (induction ys) auto

lemma sort_key_pair:
  "sort_key (\<lambda>x. k (fst x)) (map (\<lambda>x. (f x, x)) xs)
     = map (\<lambda>x. (f x, x)) (sort_key (\<lambda>x. k (f x)) xs)"
  by (induction xs) (auto simp: insort_key_pair)

lemma zip_map_self: "zip (map f xs) xs = map (\<lambda>x. (f x, x)) xs"
  by (induction xs) auto

lemma third_entry_row: "third (entry_row e) = g0 e"
  by (simp add: third_def entry_row_def)

lemma process_conv_hull_data_result:
  assumes "process_conv_hull_data h es es = Inr (data, qes)"
  shows "qes = sort_key (\<lambda>r. g0 (h r)) es \<and> data = map (\<lambda>r. entry_row (h r)) qes \<and> es \<noteq> []"
proof -
  let ?temp = "sort_key (\<lambda>x. third (fst x)) (zip (map (\<lambda>r. entry_row (h r)) es) es)"
  have temp: "?temp = map (\<lambda>r. (entry_row (h r), r)) (sort_key (\<lambda>r. g0 (h r)) es)"
    using sort_key_pair [of third "\<lambda>r. entry_row (h r)" es]
    by (simp add: zip_map_self third_entry_row)
  from assms have "?temp \<noteq> []" and "data = map fst ?temp" and "qes = map snd ?temp"
    by (auto simp: process_conv_hull_data_def Let_def split: if_splits)
  then show ?thesis
    unfolding temp by (auto simp: o_def)
qed

lemma create_result:
  assumes "create_conv_hull_data ev h multi unprocessed ec = Inr (h', all_es, qes, data)"
  shows "qes = sort_key (\<lambda>r. g0 (h' r)) all_es \<and> data = map (\<lambda>r. entry_row (h' r)) qes \<and> all_es \<noteq> []"
  using assms
  by (auto simp: create_conv_hull_data_def Let_def split: sum.splits prod.splits if_splits
        dest!: process_conv_hull_data_result)

lemma lower_envelope_result:
  assumes "lower_envelope ev data = Inr fs"
  shows "fs = filter (lower_facet (new_qhull_data_of data
                (filter (not_vertical data) (map sort_facet (ConvexHull ev data)))))
              (filter (not_vertical data) (map sort_facet (ConvexHull ev data))) \<and>
         list_all (in_range (length data)) (map sort_facet (ConvexHull ev data))"
  using assms by (auto simp: lower_envelope_def Let_def split: if_splits)


lemma init_classification:
  assumes "init ev h entries comp_dict = Inr d"
  shows "classify h entries [] [] = Inr (solid_entries d, ion_entries d) \<and>
         unprocessed_entries d = solid_entries d @ ion_entries d"
  using assms
  by (auto simp: init_def make_pourbaixdiagram_def Let_def
           split: sum.splits prod.splits if_splits list.splits)

lemma classify_bad:
  "\<exists>e\<in>set es. phase_type (h e) \<noteq> ''Solid'' \<and> phase_type (h e) \<noteq> ''Ion''
   \<Longrightarrow> classify h es solids ions = Inl (StandardError phase_type_message)"
  by (induction es arbitrary: solids ions) auto

lemma classify_good:
  "\<forall>e\<in>set es. phase_type (h e) = ''Solid'' \<or> phase_type (h e) = ''Ion''
   \<Longrightarrow> classify h es solids ions =
       Inr (solids @ filter (\<lambda>e. phase_type (h e) = ''Solid'') es,
            ions @ filter (\<lambda>e. phase_type (h e) = ''Ion'') es)"
  by (induction es arbitrary: solids ions) auto

lemma init_data:
  assumes "init ev h entries comp_dict = Inr d"
  shows "qhull_entries d = sort_key (\<lambda>r. g0 (store d r)) (all_entries d)"
    and "qhull_data d = map (\<lambda>r. entry_row (store d r)) (qhull_entries d)"
    and "3 \<le> length (qhull_data d)"
    and "length (qhull_data d) = 3 \<Longrightarrow> facets d = [(0, 1, 2)]"
    and "length (qhull_data d) \<noteq> 3 \<Longrightarrow> lower_envelope ev (qhull_data d) = Inr (facets d)"
    and "collect_stable (qhull_entries d) (facets d) ({}, {}) = (vertices d, stable_entries d)"
proof -
  from assms obtain self where m: "make_pourbaixdiagram ev self = Inr d"
    using init_make by blast
  note r = make_result [OF m]
  from r have c: "create_conv_hull_data ev (store self) (multielement self)
           (unprocessed_entries self) (elt_comp self)
         = Inr (store d, all_entries d, qhull_entries d, qhull_data d)" by simp
  from create_result [OF c]
  show "qhull_entries d = sort_key (\<lambda>r. g0 (store d r)) (all_entries d)"
    and "qhull_data d = map (\<lambda>r. entry_row (store d r)) (qhull_entries d)" by simp_all
  from r show "3 \<le> length (qhull_data d)" by simp
  from r show "length (qhull_data d) = 3 \<Longrightarrow> facets d = [(0, 1, 2)]" by simp
  from r show "length (qhull_data d) \<noteq> 3 \<Longrightarrow> lower_envelope ev (qhull_data d) = Inr (facets d)"
    by simp
  from r show "collect_stable (qhull_entries d) (facets d) ({}, {}) = (vertices d, stable_entries d)"
    by simp
qed

lemma facets_in_range:
  assumes "init ev h entries comp_dict = Inr d" and "f \<in> set (facets d)"
  shows "in_range (length (qhull_entries d)) f"
proof -
  have len: "length (qhull_data d) = length (qhull_entries d)"
    using init_data(2) [OF assms(1)] by simp
  show ?thesis
  proof (cases "length (qhull_data d) = 3")
    case True
    with init_data(4) [OF assms(1)] assms(2) len show ?thesis
      by (simp add: in_range_def facet_list_def)
  next
    case False
    from lower_envelope_result [OF init_data(5) [OF assms(1) False]] assms(2)
    have "in_range (length (qhull_data d)) f"
      by (auto simp: list_all_iff)
    with len show ?thesis by simp
  qed
qed

text \<open>
  Claim C1. For every constructed diagram the stable entries are exactly the entries
  \<open>qhull_entries[v]\<close> for the vertex indices \<open>v\<close> of the facets in the final facet
  list, in the shortcut for three points as well as in the general hull case; every
  such \<open>v\<close> is an index of \<open>qhull_entries\<close>.
\<close>

theorem stable_entries_exact:
  assumes "init ev h entries comp_dict = Inr d"
  shows "stable_entries d =
           (\<lambda>v. qhull_entries d ! v) ` (\<Union>f\<in>set (facets d). set (facet_list f)) \<and>
         (\<forall>f\<in>set (facets d). \<forall>v\<in>set (facet_list f). v < length (qhull_entries d))"
proof
  from init_data(6) [OF assms]
  show "stable_entries d =
           (\<lambda>v. qhull_entries d ! v) ` (\<Union>f\<in>set (facets d). set (facet_list f))"
    by (auto simp: collect_stable_eq)
  show "\<forall>f\<in>set (facets d). \<forall>v\<in>set (facet_list f). v < length (qhull_entries d)"
    using facets_in_range [OF assms] by (auto simp: in_range_def list_all_iff)
qed

lemma example_tetra:
  "case init reference_env example_heap [0, 1, 2, 3] [] of
     Inl e \<Rightarrow> False
   | Inr d \<Rightarrow> qhull_entries d = [1, 2, 3, 0] \<and> facets d = [(0, 1, 2)] \<and>
       qhull_data d = [(0, 0, 0), (1, 0, 0), (0, 1, 0), (0, 0, 1)] \<and>
       all_entries d = [0, 1, 2, 3]"
  by code_simp

theorem stable_entries_exact_witness:
  "\<exists>d. init reference_env example_heap [0, 1, 2, 3] [] = Inr d \<and>
       facets d = [(0, 1, 2)] \<and> qhull_entries d = [1, 2, 3, 0] \<and>
       stable_entries d = {1, 2, 3}"
proof -
  from example_tetra obtain d where
    d: "init reference_env example_heap [0, 1, 2, 3] [] = Inr d"
    and f: "facets d = [(0, 1, 2)]" and q: "qhull_entries d = [1, 2, 3, 0]"
    by (auto split: sum.splits)
  from stable_entries_exact [OF d] have "stable_entries d = {1, 2, 3}"
    by (auto simp: f q facet_list_def)
  with d f q show ?thesis by blast
qed

text \<open>
  Claim C6. For every constructed diagram \<open>qhull_data\<close> and \<open>qhull_entries\<close> have the
  same length, \<open>qhull_data\<close> ascends in its third coordinate, the row at every index is
  the triple \<open>(npH, nPhi, g0)\<close> of the entry at the same index, and the entries are the
  stable sort of \<open>all_entries\<close> by \<open>g0\<close>.
\<close>

theorem qhull_alignment:
  assumes "init ev h entries comp_dict = Inr d"
  shows "length (qhull_data d) = length (qhull_entries d) \<and>
         sorted (map third (qhull_data d)) \<and>
         (\<forall>i<length (qhull_data d).
            qhull_data d ! i = entry_row (store d (qhull_entries d ! i))) \<and>
         qhull_entries d = sort_key (\<lambda>r. g0 (store d r)) (all_entries d)"
proof -
  note q = init_data(1) [OF assms] and dt = init_data(2) [OF assms]
  have "map third (qhull_data d) = map (\<lambda>r. g0 (store d r)) (qhull_entries d)"
    by (simp add: dt third_entry_row o_def)
  also have "\<dots> = map (\<lambda>r. g0 (store d r)) (sort_key (\<lambda>r. g0 (store d r)) (all_entries d))"
    using q by simp
  finally have "sorted (map third (qhull_data d))"
    by (simp add: sorted_sort_key)
  moreover have "length (qhull_data d) = length (qhull_entries d)"
    by (simp add: dt)
  moreover have "\<forall>i<length (qhull_data d).
            qhull_data d ! i = entry_row (store d (qhull_entries d ! i))"
    by (simp add: dt)
  ultimately show ?thesis using q by blast
qed


lemma vsub_shift: "vsub (vsub p c) (vsub q c) = vsub p q"
  by (simp add: vsub_def third_def)

lemma shift_data_nth:
  "v < length data \<Longrightarrow> v \<in> set vs \<Longrightarrow> shift_data data vs c ! v = vsub (data ! v) c"
  by (simp add: shift_data_def)

lemma hull_vertices_mem:
  "f \<in> set fs \<Longrightarrow> v \<in> set (facet_list f) \<Longrightarrow> v \<in> set (hull_vertices fs)"
  by (auto simp: hull_vertices_def)

lemma outward_normal_spec:
  assumes "f \<in> set fs" and "in_range (length data) f"
  shows "outward_normal (new_qhull_data_of data fs) f
         = spec_outward_normal data (hull_center data (hull_vertices fs)) f"
proof -
  obtain v0 v1 v2 where f: "f = (v0, v1, v2)" by (cases f) auto
  let ?vs = "hull_vertices fs" and ?c = "hull_center data (hull_vertices fs)"
  from assms have r: "v0 < length data" "v1 < length data" "v2 < length data"
    by (simp_all add: f in_range_def facet_list_def)
  from assms(1) have m: "v0 \<in> set ?vs" "v1 \<in> set ?vs" "v2 \<in> set ?vs"
    by (auto intro: hull_vertices_mem simp: f facet_list_def)
  have n: "new_qhull_data_of data fs ! v0 = vsub (data ! v0) ?c"
          "new_qhull_data_of data fs ! v1 = vsub (data ! v1) ?c"
          "new_qhull_data_of data fs ! v2 = vsub (data ! v2) ?c"
    using r m by (simp_all add: new_qhull_data_of_def Let_def shift_data_nth)
  show ?thesis
    by (simp add: f outward_normal_def spec_outward_normal_def n vsub_shift Let_def)
qed

text \<open>
  Claim C2. For every diagram built from more than three hull points, the outward
  normal of every retained facet has a third component that is at most 0; the normal
  the code computes from the shifted data is the one the specification describes.
\<close>

theorem retained_normals_point_down:
  assumes "init ev h entries comp_dict = Inr d" and "3 < length (qhull_data d)"
  shows "\<forall>f\<in>set (facets d).
           (let vert_facets_removed =
                  filter (not_vertical (qhull_data d))
                    (map sort_facet (ConvexHull ev (qhull_data d)));
                n = outward_normal (new_qhull_data_of (qhull_data d) vert_facets_removed) f
            in third n \<le> 0 \<and>
               n = spec_outward_normal (qhull_data d)
                     (hull_center (qhull_data d) (hull_vertices vert_facets_removed)) f)"
proof
  fix f assume f: "f \<in> set (facets d)"
  let ?data = "qhull_data d"
  let ?vfr = "filter (not_vertical ?data) (map sort_facet (ConvexHull ev ?data))"
  from assms(2) have "length ?data \<noteq> 3" by simp
  note le = lower_envelope_result [OF init_data(5) [OF assms(1) this]]
  from le f have 1: "f \<in> set ?vfr" and 2: "lower_facet (new_qhull_data_of ?data ?vfr) f"
    by auto
  from le 1 have 3: "in_range (length ?data) f" by (auto simp: list_all_iff)
  from 2 outward_normal_spec [OF 1 3]
  show "let vert_facets_removed = ?vfr;
            n = outward_normal (new_qhull_data_of ?data vert_facets_removed) f
        in third n \<le> 0 \<and>
           n = spec_outward_normal ?data (hull_center ?data (hull_vertices vert_facets_removed)) f"
    by (simp add: lower_facet_def Let_def)
qed

text \<open>
  Claim C3, amended. For every diagram that does not take the shortcut for exactly
  three hull points, every retained facet has a homogeneous matrix whose determinant
  exceeds \<open>1e-8\<close> in absolute value. The single facet of the shortcut is kept without
  any determinant test.
\<close>

theorem hull_facets_not_vertical:
  assumes "init ev h entries comp_dict = Inr d" and "length (qhull_data d) \<noteq> 3"
  shows "\<forall>f\<in>set (facets d). 1 / 10 ^ 8 < \<bar>det3 (facetmatrix (qhull_data d) f)\<bar>"
proof
  fix f assume f: "f \<in> set (facets d)"
  from lower_envelope_result [OF init_data(5) [OF assms]] f
  have "not_vertical (qhull_data d) f" by auto
  then show "1 / 10 ^ 8 < \<bar>det3 (facetmatrix (qhull_data d) f)\<bar>"
    by (simp add: not_vertical_def)
qed

text \<open>
  Claim C3 as stated fails on the shortcut: three iron entries, two of them at the same
  \<open>(npH, nPhi)\<close>, give a diagram whose only facet has determinant 0.
\<close>

theorem shortcut_facet_vertical:
  "\<not> isl (init reference_env example_heap [0, 1, 2] []) \<and>
   facets (projr (init reference_env example_heap [0, 1, 2] [])) = [(0, 1, 2)] \<and>
   qhull_data (projr (init reference_env example_heap [0, 1, 2] []))
     = [(0, 0, 0), (1, 0, 0), (0, 0, 1)] \<and>
   \<bar>det3 (facetmatrix (qhull_data (projr (init reference_env example_heap [0, 1, 2] [])))
          (0, 1, 2))\<bar> \<le> 1 / 10 ^ 8"
  by code_simp

lemma tetra_hull:
  "ConvexHull reference_env [(0, 0, 0), (1, 0, 0), (0, 1, 0), (0, 0, 1)]
     = [(0, 1, 2), (0, 1, 3), (0, 2, 3), (1, 2, 3)]"
  by code_simp

lemma tetra_not_vertical:
  "filter (not_vertical [(0, 0, 0), (1, 0, 0), (0, 1, 0), (0, 0, 1)])
     (map sort_facet [(0, 1, 2), (0, 1, 3), (0, 2, 3), (1, 2, 3)]) = [(0, 1, 2), (1, 2, 3)]"
  by code_simp

theorem hull_facets_not_vertical_witness:
  "\<exists>d. init reference_env example_heap [0, 1, 2, 3] [] = Inr d \<and>
       length (qhull_data d) = 4 \<and> facets d = [(0, 1, 2)] \<and>
       1 / 10 ^ 8 < \<bar>det3 (facetmatrix (qhull_data d) (0, 1, 2))\<bar>"
proof -
  from example_tetra obtain d where
    d: "init reference_env example_heap [0, 1, 2, 3] [] = Inr d"
    and f: "facets d = [(0, 1, 2)]"
    and q: "qhull_data d = [(0, 0, 0), (1, 0, 0), (0, 1, 0), (0, 0, 1)]"
    by (auto split: sum.splits)
  have "length (qhull_data d) \<noteq> 3" by (simp add: q)
  from hull_facets_not_vertical [OF d this]
  have "1 / 10 ^ 8 < \<bar>det3 (facetmatrix (qhull_data d) (0, 1, 2))\<bar>"
    by (simp add: f)
  with d f q show ?thesis by auto
qed

theorem retained_normals_point_down_witness:
  "\<exists>d. init reference_env example_heap [0, 1, 2, 3] [] = Inr d \<and>
       3 < length (qhull_data d) \<and> facets d = [(0, 1, 2)] \<and>
       third (outward_normal (new_qhull_data_of (qhull_data d) [(0, 1, 2), (1, 2, 3)])
                (0, 1, 2)) \<le> 0"
proof -
  from example_tetra obtain d where
    d: "init reference_env example_heap [0, 1, 2, 3] [] = Inr d"
    and f: "facets d = [(0, 1, 2)]"
    and q: "qhull_data d = [(0, 0, 0), (1, 0, 0), (0, 1, 0), (0, 0, 1)]"
    by (auto split: sum.splits)
  have l: "3 < length (qhull_data d)" by (simp add: q)
  note w = retained_normals_point_down [OF d l, unfolded q tetra_hull tetra_not_vertical f Let_def]
  have m: "(0::nat, 1::nat, 2::nat) \<in> set [(0, 1, 2)]" by simp
  have "third (outward_normal (new_qhull_data_of (qhull_data d) [(0, 1, 2), (1, 2, 3)])
                (0, 1, 2)) \<le> 0"
    unfolding q by (rule conjunct1 [OF bspec [OF w m]])
  with d f l show ?thesis by auto
qed

subsection \<open>Classification, the empty input and the aligned hull data\<close>

text \<open>
  Claim C8. When some entry of the input has a phase type that is neither \<open>Solid\<close> nor
  \<open>Ion\<close>, the classifier fails and with it the construction, whatever the composition
  dictionary is; the error is the \<open>StandardError\<close> of line 54, which the specification
  calls a configuration error. When every entry is a solid or an ion, the classifier
  returns the solids and the ions, each in input order, and in every constructed diagram
  the unprocessed entries are the solids followed by the ions.
\<close>

theorem classification:
  "((\<exists>e\<in>set entries. phase_type (h e) \<noteq> ''Solid'' \<and> phase_type (h e) \<noteq> ''Ion'') \<longrightarrow>
      classify h entries [] [] = Inl (StandardError phase_type_message) \<and>
      init ev h entries comp_dict = Inl (StandardError phase_type_message)) \<and>
   ((\<forall>e\<in>set entries. phase_type (h e) = ''Solid'' \<or> phase_type (h e) = ''Ion'') \<longrightarrow>
      classify h entries [] [] =
        Inr (filter (\<lambda>e. phase_type (h e) = ''Solid'') entries,
             filter (\<lambda>e. phase_type (h e) = ''Ion'') entries)) \<and>
   (\<forall>d. init ev h entries comp_dict = Inr d \<longrightarrow>
      solid_entries d = filter (\<lambda>e. phase_type (h e) = ''Solid'') entries \<and>
      ion_entries d = filter (\<lambda>e. phase_type (h e) = ''Ion'') entries \<and>
      unprocessed_entries d = solid_entries d @ ion_entries d)"
proof (intro conjI impI allI)
  assume b: "\<exists>e\<in>set entries. phase_type (h e) \<noteq> ''Solid'' \<and> phase_type (h e) \<noteq> ''Ion''"
  from classify_bad [OF b]
  show c: "classify h entries [] [] = Inl (StandardError phase_type_message)" .
  then show "init ev h entries comp_dict = Inl (StandardError phase_type_message)"
    by (simp add: init_def)
next
  assume g: "\<forall>e\<in>set entries. phase_type (h e) = ''Solid'' \<or> phase_type (h e) = ''Ion''"
  from classify_good [OF g, of "[]" "[]"]
  show "classify h entries [] [] =
        Inr (filter (\<lambda>e. phase_type (h e) = ''Solid'') entries,
             filter (\<lambda>e. phase_type (h e) = ''Ion'') entries)" by simp
next
  fix d assume d: "init ev h entries comp_dict = Inr d"
  note c = init_classification [OF d]
  have g: "\<forall>e\<in>set entries. phase_type (h e) = ''Solid'' \<or> phase_type (h e) = ''Ion''"
  proof (rule ccontr)
    assume "\<not> ?thesis"
    then have "\<exists>e\<in>set entries. phase_type (h e) \<noteq> ''Solid'' \<and> phase_type (h e) \<noteq> ''Ion''"
      by blast
    from classify_bad [OF this, of "[]" "[]"] c show False by simp
  qed
  from classify_good [OF g, of "[]" "[]"] c
  show "solid_entries d = filter (\<lambda>e. phase_type (h e) = ''Solid'') entries"
    and "ion_entries d = filter (\<lambda>e. phase_type (h e) = ''Ion'') entries"
    and "unprocessed_entries d = solid_entries d @ ion_entries d"
    by simp_all
qed

lemma example_reordered:
  "case init reference_env example_heap [3, 0, 2, 1] [] of
     Inl e \<Rightarrow> False
   | Inr d \<Rightarrow> qhull_entries d = [1, 3, 2, 0]"
  by code_simp

theorem classification_witness:
  "init reference_env example_heap [0, 4, 2] [] = Inl (StandardError phase_type_message) \<and>
   classify example_heap [3, 0, 2, 1] [] [] = Inr ([0, 1], [3, 2]) \<and>
   (\<exists>d. init reference_env example_heap [3, 0, 2, 1] [] = Inr d \<and>
        solid_entries d = [0, 1] \<and> ion_entries d = [3, 2] \<and>
        unprocessed_entries d = [0, 1, 3, 2])"
proof (intro conjI)
  have b: "\<exists>e\<in>set [0, 4, 2]. phase_type (example_heap e) \<noteq> ''Solid'' \<and>
             phase_type (example_heap e) \<noteq> ''Ion''"
    by code_simp
  with classification [of "[0, 4, 2]" example_heap reference_env "[]"]
  show "init reference_env example_heap [0, 4, 2] [] = Inl (StandardError phase_type_message)"
    by blast
  have g: "\<forall>e\<in>set [3, 0, 2, 1]. phase_type (example_heap e) = ''Solid'' \<or>
             phase_type (example_heap e) = ''Ion''"
    by code_simp
  have s: "filter (\<lambda>e. phase_type (example_heap e) = ''Solid'') [3, 0, 2, 1] = [0, 1]"
    by code_simp
  have i: "filter (\<lambda>e. phase_type (example_heap e) = ''Ion'') [3, 0, 2, 1] = [3, 2]"
    by code_simp
  from classification [of "[3, 0, 2, 1]" example_heap reference_env "[]"] g
  show "classify example_heap [3, 0, 2, 1] [] [] = Inr ([0, 1], [3, 2])"
    unfolding s i by blast
  from example_reordered obtain d where
    d: "init reference_env example_heap [3, 0, 2, 1] [] = Inr d"
    by (auto split: sum.splits)
  with classification [of "[3, 0, 2, 1]" example_heap reference_env "[]"]
  have "solid_entries d = [0, 1] \<and> ion_entries d = [3, 2] \<and>
        unprocessed_entries d = solid_entries d @ ion_entries d"
    unfolding s i by blast
  with d show "\<exists>d. init reference_env example_heap [3, 0, 2, 1] [] = Inr d \<and>
        solid_entries d = [0, 1] \<and> ion_entries d = [3, 2] \<and>
        unprocessed_entries d = [0, 1, 3, 2]"
    by auto
qed

text \<open>
  Claim C10. With an empty composition dictionary and an empty entry sequence the
  classifier accepts the input and the construction fails with an \<open>IndexError\<close>, raised
  by \<open>entries[0]\<close> at line 81 before \<open>_make_pourbaixdiagram\<close> runs: on no entries at all
  that method would stop with a \<open>ValueError\<close> at line 111, and the check for fewer than
  three hull points would still not be reached.
\<close>

theorem empty_entries_index_error:
  "classify h [] [] [] = Inr ([], []) \<and>
   init ev h [] [] = Inl IndexError \<and>
   make_pourbaixdiagram ev (self\<lparr>multielement := False, unprocessed_entries := []\<rparr>)
     = Inl ValueError"
  by (simp add: init_def make_pourbaixdiagram_def create_conv_hull_data_def
        process_conv_hull_data_def)

lemma example_aliased:
  "case init reference_env example_heap [1, 5, 7] example_elt_comp of
     Inl e \<Rightarrow> False
   | Inr d \<Rightarrow> all_entries d = [8, 9, 9] \<and> qhull_entries d = [9, 9, 8] \<and>
       qhull_data d = [(9 / 4, 9 / 2, - (27 / 4)), (9 / 4, 9 / 2, - (27 / 4)), (2, 4, - 6)]"
  by code_simp

theorem qhull_alignment_witness:
  "\<exists>d. init reference_env example_heap [1, 5, 7] example_elt_comp = Inr d \<and>
       all_entries d = [8, 9, 9] \<and> qhull_entries d = [9, 9, 8] \<and>
       qhull_data d = [(9 / 4, 9 / 2, - (27 / 4)), (9 / 4, 9 / 2, - (27 / 4)), (2, 4, - 6)] \<and>
       length (qhull_data d) = length (qhull_entries d) \<and>
       sorted (map third (qhull_data d)) \<and>
       qhull_data d ! 2 = entry_row (store d (qhull_entries d ! 2))"
proof -
  from example_aliased obtain d where
    d: "init reference_env example_heap [1, 5, 7] example_elt_comp = Inr d"
    and v: "all_entries d = [8, 9, 9]" "qhull_entries d = [9, 9, 8]"
       "qhull_data d = [(9 / 4, 9 / 2, - (27 / 4)), (9 / 4, 9 / 2, - (27 / 4)), (2, 4, - 6)]"
    by (auto split: sum.splits)
  have l: "2 < length (qhull_data d)" by (simp add: v(3))
  from qhull_alignment [OF d] l
  have "length (qhull_data d) = length (qhull_entries d) \<and>
        sorted (map third (qhull_data d)) \<and>
        qhull_data d ! 2 = entry_row (store d (qhull_entries d ! 2))"
    by blast
  with d v show ?thesis by blast
qed

subsection \<open>The synthesizer\<close>

lemma foldr_max_ge: "r \<in> set rs \<Longrightarrow> r \<le> foldr max rs (0::nat)"
  by (induction rs) (auto simp: max_def)

lemma fresh_ref_fresh: "fresh_ref rs \<notin> set rs"
  using foldr_max_ge [of "fresh_ref rs" rs] by (auto simp: fresh_ref_def)

lemma combinations_length_subset:
  "el \<in> set (combinations xs n) \<Longrightarrow> length el = n \<and> set el \<subseteq> set xs"
  by (induction xs n arbitrary: el rule: combinations.induct) (auto, blast)

lemma system_cong:
  assumes "\<forall>r\<in>set entries. h1 r = h2 r" and "\<forall>j\<in>set el. j < length entries"
  shows "system_A h1 entries ec el = system_A h2 entries ec el"
    and "system_b h1 entries ec el = system_b h2 entries ec el \<or> el = []"
proof -
  have e: "\<And>j. j < length el \<Longrightarrow> h1 (entries ! (el ! j)) = h2 (entries ! (el ! j))"
    using assms by (metis nth_mem)
  show "system_A h1 entries ec el = system_A h2 entries ec el"
    by (simp add: system_A_def Let_def e cong: map_cong)
  show "system_b h1 entries ec el = system_b h2 entries ec el \<or> el = []"
    using e [of 0] by (cases el) (simp_all add: system_b_def Let_def)
qed

lemma solve_combination_cong:
  assumes "\<forall>r\<in>set entries. h1 r = h2 r"
  shows "solve_combination ev h1 entries ec el = solve_combination ev h2 entries ec el"
proof (cases "el = [] \<or> list_ex (\<lambda>j. length entries \<le> j) el")
  case True
  then show ?thesis by (simp add: solve_combination_def)
next
  case False
  then have r: "\<forall>j\<in>set el. j < length entries" and ne: "el \<noteq> []"
    by (auto simp: list_ex_iff)
  then have z: "list_ex (\<lambda>j. red_fac (h1 (entries ! j)) = 0) el
              = list_ex (\<lambda>j. red_fac (h2 (entries ! j)) = 0) el"
    using assms by (auto simp: list_ex_iff)
  from system_cong [OF assms r] ne show ?thesis
    by (simp add: solve_combination_def z)
qed

lemma synth_loop_append:
  "synth_loop ev entries ec (xs @ ys) st =
     (case synth_loop ev entries ec xs st of
        Inl e \<Rightarrow> Inl e
      | Inr st1 \<Rightarrow> synth_loop ev entries ec ys st1)"
  by (induction xs arbitrary: st) (auto simp: Let_def split: sum.splits option.splits)

lemma synth_loop_skipped:
  "\<forall>el\<in>set combos. solve_combination ev (s_store st) entries ec el = Inr None \<Longrightarrow>
   synth_loop ev entries ec combos st =
     Inr (st\<lparr>entry_list_var := (if combos = [] then entry_list_var st else Some (last combos))\<rparr>)"
  by (induction combos arbitrary: st) auto


lemma synth_loop_char:
  assumes "\<forall>r\<in>set entries. s_store st r = h r"
      and "synth_loop ev entries ec combos st = Inr st'"
  shows "\<exists>new. processed_entries st' = processed_entries st @ new \<and>
           distinct new \<and>
           set new \<inter> (set entries \<union> set (processed_entries st)) = {} \<and>
           map (\<lambda>m. (entrylist (s_store st' m), weights (s_store st' m))) new
             = map (\<lambda>el. (map (\<lambda>j. entries ! j) el, combo_weights ev h entries ec el))
                   (filter (feasible ev h entries ec) combos) \<and>
           (\<forall>r. r \<notin> set new \<longrightarrow> s_store st' r = s_store st r) \<and>
           super_entry st' = (if new = [] then super_entry st else Some (last new)) \<and>
           entry_list_var st' = (if combos = [] then entry_list_var st else Some (last combos))"
  using assms
proof (induction combos arbitrary: st)
  case Nil
  then show ?case by simp
next
  case (Cons el combos)
  have eq: "solve_combination ev (s_store st) entries ec el = solve_combination ev h entries ec el"
    using Cons.prems(1) by (rule solve_combination_cong)
  show ?case
  proof (cases "solve_combination ev h entries ec el")
    case (Inl e)
    with Cons.prems(2) eq show ?thesis by simp
  next
    case (Inr res)
    show ?thesis
    proof (cases res)
      case None
      let ?st1 = "st\<lparr>entry_list_var := Some el\<rparr>"
      from Cons.prems(2) eq Inr None
      have l: "synth_loop ev entries ec combos ?st1 = Inr st'" by simp
      have a: "\<forall>r\<in>set entries. s_store ?st1 r = h r" using Cons.prems(1) by simp
      from Cons.IH [OF a l] obtain new where
        n: "processed_entries st' = processed_entries st @ new" "distinct new"
           "set new \<inter> (set entries \<union> set (processed_entries st)) = {}"
           "map (\<lambda>m. (entrylist (s_store st' m), weights (s_store st' m))) new
             = map (\<lambda>el. (map (\<lambda>j. entries ! j) el, combo_weights ev h entries ec el))
                   (filter (feasible ev h entries ec) combos)"
           "\<forall>r. r \<notin> set new \<longrightarrow> s_store st' r = s_store st r"
           "super_entry st' = (if new = [] then super_entry st else Some (last new))"
           "entry_list_var st' = (if combos = [] then Some el else Some (last combos))"
        by auto
      have nf: "\<not> feasible ev h entries ec el" by (simp add: feasible_def Inr None)
      from n nf show ?thesis by (intro exI [of _ new]) auto
    next
      case (Some ws)
      let ?r = "fresh_ref (entries @ processed_entries st)"
      let ?st1 = "\<lparr> s_store = (s_store st)(?r := MultiEntry (s_store st) (map (\<lambda>j. entries ! j) el) ws),
                     processed_entries = processed_entries st @ [?r],
                     entry_components_dict = (entry_components_dict st)(?r \<mapsto> el),
                     super_entry = Some ?r,
                     entry_list_var = Some el \<rparr>"
      from Cons.prems(2) eq Inr Some
      have l: "synth_loop ev entries ec combos ?st1 = Inr st'" by (simp add: Let_def)
      have fr: "?r \<notin> set entries" "?r \<notin> set (processed_entries st)"
        using fresh_ref_fresh [of "entries @ processed_entries st"] by auto
      have a: "\<forall>r\<in>set entries. s_store ?st1 r = h r" using Cons.prems(1) fr by auto
      from Cons.IH [OF a l] obtain new where
        n: "processed_entries st' = (processed_entries st @ [?r]) @ new" "distinct new"
           "set new \<inter> (set entries \<union> set (processed_entries st @ [?r])) = {}"
           "map (\<lambda>m. (entrylist (s_store st' m), weights (s_store st' m))) new
             = map (\<lambda>el. (map (\<lambda>j. entries ! j) el, combo_weights ev h entries ec el))
                   (filter (feasible ev h entries ec) combos)"
           "\<forall>r. r \<notin> set new \<longrightarrow> s_store st' r = s_store ?st1 r"
           "super_entry st' = (if new = [] then Some ?r else Some (last new))"
           "entry_list_var st' = (if combos = [] then Some el else Some (last combos))"
        by auto
      have fe: "feasible ev h entries ec el" "combo_weights ev h entries ec el = ws"
        by (simp_all add: feasible_def combo_weights_def Inr Some)
      from n(3) have rn: "?r \<notin> set new" by auto
      with n(5) have sr: "s_store st' ?r = MultiEntry (s_store st) (map (\<lambda>j. entries ! j) el) ws"
        by simp
      have "processed_entries st' = processed_entries st @ (?r # new)" using n(1) by simp
      moreover have "distinct (?r # new)" using n(2) rn by simp
      moreover have "set (?r # new) \<inter> (set entries \<union> set (processed_entries st)) = {}"
        using n(3) fr by auto
      moreover have "map (\<lambda>m. (entrylist (s_store st' m), weights (s_store st' m))) (?r # new)
             = map (\<lambda>el. (map (\<lambda>j. entries ! j) el, combo_weights ev h entries ec el))
                   (filter (feasible ev h entries ec) (el # combos))"
        using n(4) fe sr by (simp add: MultiEntry_def)
      moreover have "\<forall>r. r \<notin> set (?r # new) \<longrightarrow> s_store st' r = s_store st r"
        using n(5) by simp
      moreover have "super_entry st' = (if ?r # new = [] then super_entry st else Some (last (?r # new)))"
        using n(6) by simp
      moreover have "entry_list_var st' = (if el # combos = [] then entry_list_var st else Some (last (el # combos)))"
        using n(7) by simp
      ultimately show ?thesis by (intro exI [of _ "?r # new"]) blast
    qed
  qed
qed

lemma synth_loop_total:
  assumes "\<forall>r\<in>set entries. s_store st r = h r"
      and "\<forall>el\<in>set combos. \<not> isl (solve_combination ev h entries ec el)"
  shows "\<exists>st'. synth_loop ev entries ec combos st = Inr st'"
  using assms
proof (induction combos arbitrary: st)
  case Nil
  then show ?case by simp
next
  case (Cons el combos)
  have eq: "solve_combination ev (s_store st) entries ec el = solve_combination ev h entries ec el"
    using Cons.prems(1) by (rule solve_combination_cong)
  from Cons.prems(2) obtain res where r: "solve_combination ev h entries ec el = Inr res"
    by (cases "solve_combination ev h entries ec el") auto
  show ?case
  proof (cases res)
    case None
    with Cons r eq show ?thesis by simp
  next
    case (Some ws)
    let ?r = "fresh_ref (entries @ processed_entries st)"
    have fr: "?r \<notin> set entries"
      using fresh_ref_fresh [of "entries @ processed_entries st"] by auto
    then have "\<forall>x\<in>set entries.
        s_store \<lparr> s_store = (s_store st)(?r := MultiEntry (s_store st) (map (\<lambda>j. entries ! j) el) ws),
                     processed_entries = processed_entries st @ [?r],
                     entry_components_dict = (entry_components_dict st)(?r \<mapsto> el),
                     super_entry = Some ?r,
                     entry_list_var = Some el \<rparr> x = h x"
      using Cons.prems(1) by auto
    from Cons.IH [OF this] Cons.prems(2) r eq Some show ?thesis
      by (simp add: Let_def)
  qed
qed


lemma solve_combination_Some:
  assumes "solve_combination ev h entries ec el = Inr (Some ws')"
  shows "\<exists>ws. ws' = 1 # ws \<and> (\<forall>w\<in>set ws. 0 < w) \<and>
              linalg_solve ev (system_A h entries ec el) (system_b h entries ec el) = Inr ws"
  using assms
  by (auto simp: solve_combination_def list_all_iff split: if_splits sum.splits)

lemma feasible_weights:
  assumes "feasible ev h entries ec el"
  shows "\<exists>ws. combo_weights ev h entries ec el = 1 # ws \<and> (\<forall>w\<in>set ws. 0 < w) \<and>
              linalg_solve ev (system_A h entries ec el) (system_b h entries ec el) = Inr ws"
proof -
  from assms obtain ws' where s: "solve_combination ev h entries ec el = Inr (Some ws')"
    by (auto simp: feasible_def split: sum.splits option.splits)
  from solve_combination_Some [OF s] s show ?thesis
    by (simp add: combo_weights_def)
qed

lemma process_multielement_entries_result:
  assumes "process_multielement_entries ev h entries ec = Inr st"
  shows "\<exists>new. new \<noteq> [] \<and> processed_entries st = new @ [last new] \<and> distinct new \<and>
           map (\<lambda>m. (entrylist (s_store st m), weights (s_store st m))) new
             = map (\<lambda>el. (map (\<lambda>j. entries ! j) el, combo_weights ev h entries ec el))
                   (filter (feasible ev h entries ec)
                      (combinations [0..<length entries] (length ec)))"
proof -
  let ?combos = "combinations [0..<length entries] (length ec)"
  from assms obtain st1 where
    l: "synth_loop ev entries ec ?combos (synth_init h) = Inr st1" and p: "post_loop st1 = Inr st"
    by (auto simp: process_multielement_entries_def Let_def split: sum.splits)
  have a: "\<forall>r\<in>set entries. s_store (synth_init h) r = h r" by (simp add: synth_init_def)
  from synth_loop_char [OF a l] obtain new where
    n: "processed_entries st1 = new" "distinct new"
       "map (\<lambda>m. (entrylist (s_store st1 m), weights (s_store st1 m))) new
             = map (\<lambda>el. (map (\<lambda>j. entries ! j) el, combo_weights ev h entries ec el))
                   (filter (feasible ev h entries ec) ?combos)"
       "super_entry st1 = (if new = [] then None else Some (last new))"
    by (auto simp: synth_init_def)
  from p n(4) have ne: "new \<noteq> []"
    by (auto simp: post_loop_def split: option.splits if_splits)
  from p n(1,4) ne have "processed_entries st = new @ [last new]" "s_store st = s_store st1"
    by (auto simp: post_loop_def split: option.splits)
  with n ne show ?thesis by auto
qed

text \<open>
  Claim C4. When no combination raises and at least one combination is feasible, the
  synthesizer returns the entries built in the loop, one per feasible combination and
  in the order of the combinations, followed by one more occurrence of the last of them:
  the last two elements of the result are the same object, which occurs nowhere else.
\<close>

theorem duplicate_append:
  assumes "\<forall>el\<in>set (combinations [0..<length entries] (length ec)).
             \<not> isl (solve_combination ev h entries ec el)"
      and "\<exists>el\<in>set (combinations [0..<length entries] (length ec)).
             feasible ev h entries ec el"
  shows "\<exists>st ps m. process_multielement_entries ev h entries ec = Inr st \<and>
           processed_entries st = ps @ [m, m] \<and> m \<notin> set ps \<and> distinct ps \<and>
           map (\<lambda>m. (entrylist (s_store st m), weights (s_store st m))) (ps @ [m])
             = map (\<lambda>el. (map (\<lambda>j. entries ! j) el, combo_weights ev h entries ec el))
                   (filter (feasible ev h entries ec)
                      (combinations [0..<length entries] (length ec)))"
proof -
  let ?combos = "combinations [0..<length entries] (length ec)"
  have a: "\<forall>r\<in>set entries. s_store (synth_init h) r = h r" by (simp add: synth_init_def)
  from synth_loop_total [OF a assms(1)] obtain st1 where
    l: "synth_loop ev entries ec ?combos (synth_init h) = Inr st1" by blast
  from synth_loop_char [OF a l] obtain new where
    n: "processed_entries st1 = new" "distinct new"
       "map (\<lambda>m. (entrylist (s_store st1 m), weights (s_store st1 m))) new
             = map (\<lambda>el. (map (\<lambda>j. entries ! j) el, combo_weights ev h entries ec el))
                   (filter (feasible ev h entries ec) ?combos)"
       "super_entry st1 = (if new = [] then None else Some (last new))"
       "entry_list_var st1 = (if ?combos = [] then None else Some (last ?combos))"
    by (auto simp: synth_init_def)
  from assms(2) have fne: "filter (feasible ev h entries ec) ?combos \<noteq> []" and cne: "?combos \<noteq> []"
    by (auto simp: filter_empty_conv)
  from n(3) fne have ne: "new \<noteq> []" by auto
  let ?st = "st1\<lparr> entry_components_dict := (entry_components_dict st1)(last new \<mapsto> last ?combos),
                  processed_entries := new @ [last new] \<rparr>"
  have p: "process_multielement_entries ev h entries ec = Inr ?st"
    using l n ne cne by (simp add: process_multielement_entries_def post_loop_def Let_def)
  have 1: "processed_entries ?st = butlast new @ [last new, last new]"
    using ne by (simp add: append_butlast_last_id [symmetric] del: append_butlast_last_id)
  have 2: "last new \<notin> set (butlast new)" "distinct (butlast new)"
    using n(2) ne by (metis append_butlast_last_id distinct_append distinct.simps(2) disjoint_iff list.set_intros(1) not_distinct_conv_prefix distinct_butlast)+
  have 3: "butlast new @ [last new] = new" using ne by simp
  show ?thesis
    using p 1 2 n(3) 3 by (intro exI [of _ ?st] exI [of _ "butlast new"] exI [of _ "last new"]) simp
qed

text \<open>
  Claim C5. Every entry of the synthesizer's output was built from a combination whose
  linear system the solver solved; its weight vector is 1 followed by that solution, and
  every component of the solution is positive.
\<close>

theorem output_weights_positive:
  assumes "process_multielement_entries ev h entries ec = Inr st"
  shows "\<forall>m\<in>set (processed_entries st).
           \<exists>el ws. el \<in> set (combinations [0..<length entries] (length ec)) \<and>
             entrylist (s_store st m) = map (\<lambda>j. entries ! j) el \<and>
             linalg_solve ev (system_A h entries ec el) (system_b h entries ec el) = Inr ws \<and>
             weights (s_store st m) = 1 # ws \<and> (\<forall>w\<in>set ws. 0 < w)"
proof
  fix m assume m: "m \<in> set (processed_entries st)"
  let ?combos = "combinations [0..<length entries] (length ec)"
  let ?f = "\<lambda>m. (entrylist (s_store st m), weights (s_store st m))"
  let ?g = "\<lambda>el. (map (\<lambda>j. entries ! j) el, combo_weights ev h entries ec el)"
  from process_multielement_entries_result [OF assms] obtain new where
    n: "new \<noteq> []" "processed_entries st = new @ [last new]"
       "map ?f new = map ?g (filter (feasible ev h entries ec) ?combos)"
    by blast
  from m n(1,2) have "m \<in> set new" by auto
  then have "?f m \<in> set (map ?f new)" by simp
  with n(3) obtain el where el: "el \<in> set ?combos" "feasible ev h entries ec el" "?f m = ?g el"
    by auto
  from feasible_weights [OF el(2)] el(1,3)
  show "\<exists>el ws. el \<in> set ?combos \<and>
             entrylist (s_store st m) = map (\<lambda>j. entries ! j) el \<and>
             linalg_solve ev (system_A h entries ec el) (system_b h entries ec el) = Inr ws \<and>
             weights (s_store st m) = 1 # ws \<and> (\<forall>w\<in>set ws. 0 < w)"
    by auto
qed

text \<open>
  Claim C9. When every combination is skipped, or there is no combination at all, the
  synthesizer returns no list: it fails at line 165 with an \<open>UnboundLocalError\<close>. The
  unbound name is \<open>entry_list\<close> when the loop never ran, and \<open>super_entry\<close> when it ran
  and skipped every combination.
\<close>

theorem no_feasible_unbound_local:
  assumes "\<forall>el\<in>set (combinations [0..<length entries] (length ec)).
             solve_combination ev h entries ec el = Inr None"
  shows "process_multielement_entries ev h entries ec =
           Inl (UnboundLocalError
                 (if combinations [0..<length entries] (length ec) = [] then ''entry_list''
                  else ''super_entry''))"
proof -
  from assms have "\<forall>el\<in>set (combinations [0..<length entries] (length ec)).
             solve_combination ev (s_store (synth_init h)) entries ec el = Inr None"
    by (simp add: synth_init_def)
  from synth_loop_skipped [OF this] show ?thesis
    by (simp add: process_multielement_entries_def post_loop_def synth_init_def Let_def)
qed

text \<open>
  Claim C7, amended. When the solver raises a \<open>LinAlgError\<close> on the first combination
  that is not handled without an exception, a message containing \<open>Singular matrix\<close>
  makes the loop skip the combination, and any other message makes the synthesizer fail
  with the new exception \<open>StandardError("Unknown Error message!")\<close>: the failure reaches
  the caller, the original exception does not.
\<close>

theorem unknown_linalg_failure:
  assumes "combinations [0..<length entries] (length ec) = pre @ el # post"
      and "\<forall>x\<in>set pre. \<not> isl (solve_combination ev h entries ec x)"
      and "ec \<noteq> []"
      and "\<forall>j\<in>set el. red_fac (h (entries ! j)) \<noteq> 0"
      and "linalg_solve ev (system_A h entries ec el) (system_b h entries ec el) = Inl msg"
  shows "(contains_sub ''Singular matrix'' msg \<longrightarrow>
            solve_combination ev h entries ec el = Inr None) \<and>
         (\<not> contains_sub ''Singular matrix'' msg \<longrightarrow>
            process_multielement_entries ev h entries ec
              = Inl (StandardError ''Unknown Error message!''))"
proof -
  have "el \<in> set (combinations [0..<length entries] (length ec))"
    by (simp add: assms(1))
  from combinations_length_subset [OF this] assms(3)
  have g: "el \<noteq> []" "\<not> list_ex (\<lambda>j. length entries \<le> j) el"
    by (auto simp: list_ex_iff)
  from assms(4) have z: "\<not> list_ex (\<lambda>j. red_fac (h (entries ! j)) = 0) el"
    by (simp add: list_ex_iff)
  have s: "solve_combination ev h entries ec el =
             (if contains_sub ''Singular matrix'' msg then Inr None
              else Inl (StandardError ''Unknown Error message!''))"
    using g z assms(5) by (simp add: solve_combination_def)
  have a: "\<forall>r\<in>set entries. s_store (synth_init h) r = h r" by (simp add: synth_init_def)
  from synth_loop_total [OF a assms(2)] obtain st1 where
    l: "synth_loop ev entries ec pre (synth_init h) = Inr st1" by blast
  from synth_loop_char [OF a l] have "\<forall>r\<in>set entries. s_store st1 r = h r"
    by (auto simp: synth_init_def)
  then have "solve_combination ev (s_store st1) entries ec el = solve_combination ev h entries ec el"
    by (rule solve_combination_cong)
  with s l show ?thesis
    by (simp add: process_multielement_entries_def Let_def assms(1) synth_loop_append)
qed

lemma example_multi:
  "case process_multielement_entries reference_env example_heap [1, 5, 7] example_elt_comp of
     Inl e \<Rightarrow> False
   | Inr st \<Rightarrow> processed_entries st = [8, 9, 9] \<and>
       weights (s_store st 8) = [1, 1] \<and> weights (s_store st 9) = [1, 1 / 2] \<and>
       entrylist (s_store st 8) = [1, 5] \<and> entrylist (s_store st 9) = [5, 7]"
  by code_simp

lemma example_multi_no_error:
  "\<forall>el\<in>set (combinations [0..<length [1, 5, 7 :: nat]] (length example_elt_comp)).
     \<not> isl (solve_combination reference_env example_heap [1, 5, 7] example_elt_comp el)"
  by code_simp

lemma example_multi_feasible:
  "\<exists>el\<in>set (combinations [0..<length [1, 5, 7 :: nat]] (length example_elt_comp)).
     feasible reference_env example_heap [1, 5, 7] example_elt_comp el"
  by code_simp

theorem duplicate_append_witness:
  "\<exists>st ps m. process_multielement_entries reference_env example_heap [1, 5, 7] example_elt_comp
                = Inr st \<and>
      processed_entries st = ps @ [m, m] \<and> m \<notin> set ps \<and> processed_entries st = [8, 9, 9]"
proof -
  from duplicate_append [OF example_multi_no_error example_multi_feasible]
  obtain st ps m where
    s: "process_multielement_entries reference_env example_heap [1, 5, 7] example_elt_comp = Inr st"
       "processed_entries st = ps @ [m, m]" "m \<notin> set ps"
    by blast
  from example_multi s(1) have "processed_entries st = [8, 9, 9]" by simp
  with s show ?thesis by blast
qed

theorem output_weights_positive_witness:
  "\<exists>st. process_multielement_entries reference_env example_heap [1, 5, 7] example_elt_comp
            = Inr st \<and>
      9 \<in> set (processed_entries st) \<and>
      (\<exists>ws. weights (s_store st 9) = 1 # ws \<and> list_all (\<lambda>w. 0 < w) ws)"
proof -
  from example_multi obtain st where
    s: "process_multielement_entries reference_env example_heap [1, 5, 7] example_elt_comp = Inr st"
    and p: "processed_entries st = [8, 9, 9]"
    by (auto split: sum.splits)
  from p have m: "9 \<in> set (processed_entries st)" by simp
  from bspec [OF output_weights_positive [OF s] m]
  have "\<exists>ws. weights (s_store st 9) = 1 # ws \<and> list_all (\<lambda>w. 0 < w) ws"
    by (auto simp: list_all_iff)
  with s m show ?thesis by blast
qed

lemma example_skipped:
  "\<forall>el\<in>set (combinations [0..<length [1, 6, 7 :: nat]] (length example_elt_comp)).
     solve_combination reference_env example_heap [1, 6, 7] example_elt_comp el = Inr None"
  by code_simp

lemma example_no_combination:
  "\<forall>el\<in>set (combinations [0..<length [1 :: nat]] (length example_elt_comp)).
     solve_combination reference_env example_heap [1] example_elt_comp el = Inr None"
  by code_simp

theorem no_feasible_unbound_local_witness:
  "process_multielement_entries reference_env example_heap [1, 6, 7] example_elt_comp
     = Inl (UnboundLocalError ''super_entry'') \<and>
   process_multielement_entries reference_env example_heap [1] example_elt_comp
     = Inl (UnboundLocalError ''entry_list'')"
proof
  have c: "combinations [0..<length [1, 6, 7 :: nat]] (length example_elt_comp) \<noteq> []"
    by code_simp
  from no_feasible_unbound_local [OF example_skipped] c
  show "process_multielement_entries reference_env example_heap [1, 6, 7] example_elt_comp
     = Inl (UnboundLocalError ''super_entry'')" by simp
  have c: "combinations [0..<length [1 :: nat]] (length example_elt_comp) = []"
    by code_simp
  from no_feasible_unbound_local [OF example_no_combination] c
  show "process_multielement_entries reference_env example_heap [1] example_elt_comp
     = Inl (UnboundLocalError ''entry_list'')" by simp
qed

text \<open>
  Claim C7 as stated fails: with one element in the composition dictionary the matrix is
  the empty list, the solver rejects the one-dimensional array with a \<open>LinAlgError\<close>
  that is no singularity, and the caller receives a \<open>StandardError\<close> instead of it.
\<close>

theorem linalg_error_replaced:
  "linalg_solve reference_env (system_A example_heap [1] [(''Fe'', 1)] [0])
       (system_b example_heap [1] [(''Fe'', 1)] [0])
     = Inl ''1-dimensional array given. Array must be two-dimensional'' \<and>
   isl (process_multielement_entries reference_env example_heap [1] [(''Fe'', 1)]) \<and>
   projl (process_multielement_entries reference_env example_heap [1] [(''Fe'', 1)])
     = StandardError ''Unknown Error message!'' \<and>
   projl (process_multielement_entries reference_env example_heap [1] [(''Fe'', 1)])
     \<noteq> LinAlgError ''1-dimensional array given. Array must be two-dimensional'' \<and>
   isl (init reference_env example_heap [1] [(''Fe'', 1)]) \<and>
   projl (init reference_env example_heap [1] [(''Fe'', 1)])
     = StandardError ''Unknown Error message!''"
  by code_simp

theorem unknown_linalg_failure_witness:
  "process_multielement_entries reference_env example_heap [1] [(''Fe'', 1)]
     = Inl (StandardError ''Unknown Error message!'') \<and>
   solve_combination reference_env example_heap [1, 6] example_elt_comp [0, 1] = Inr None"
proof
  have 1: "combinations [0..<length [1 :: nat]] (length [(''Fe'', 1 :: real)]) = [] @ [0] # []"
    by code_simp
  have 2: "\<forall>x\<in>set []. \<not> isl (solve_combination reference_env example_heap [1] [(''Fe'', 1)] x)"
    by simp
  have 3: "[(''Fe'', 1 :: real)] \<noteq> []" by simp
  have 4: "\<forall>j\<in>set [0]. red_fac (example_heap ([1] ! j)) \<noteq> 0" by code_simp
  have 5: "linalg_solve reference_env (system_A example_heap [1] [(''Fe'', 1)] [0])
       (system_b example_heap [1] [(''Fe'', 1)] [0])
     = Inl ''1-dimensional array given. Array must be two-dimensional''" by code_simp
  have 6: "\<not> contains_sub ''Singular matrix''
             ''1-dimensional array given. Array must be two-dimensional''" by code_simp
  from unknown_linalg_failure [OF 1 2 3 4 5] 6
  show "process_multielement_entries reference_env example_heap [1] [(''Fe'', 1)]
     = Inl (StandardError ''Unknown Error message!'')" by blast
  have 1: "combinations [0..<length [1, 6 :: nat]] (length example_elt_comp) = [] @ [0, 1] # []"
    by code_simp
  have 2: "\<forall>x\<in>set []. \<not> isl (solve_combination reference_env example_heap [1, 6] example_elt_comp x)"
    by simp
  have 3: "example_elt_comp \<noteq> []" by code_simp
  have 4: "\<forall>j\<in>set [0, 1]. red_fac (example_heap ([1, 6] ! j)) \<noteq> 0" by code_simp
  have 5: "linalg_solve reference_env (system_A example_heap [1, 6] example_elt_comp [0, 1])
       (system_b example_heap [1, 6] example_elt_comp [0, 1]) = Inl ''Singular matrix''"
    by code_simp
  have 6: "contains_sub ''Singular matrix'' ''Singular matrix''" by code_simp
  from unknown_linalg_failure [OF 1 2 3 4 5] 6
  show "solve_combination reference_env example_heap [1, 6] example_elt_comp [0, 1] = Inr None"
    by blast
qed

end
